theory Spec2Isabelle
  imports
    Complex_Main
    "HOL-Library.Product_Lexorder"
    "HOL-Library.List_Lexorder"
    "HOL-Library.Char_ord"
begin

section \<open>Adoption centers and adopters (frame.py)\<close>

text \<open>
  The script is Python 2. Its integers are modelled by \<open>int\<close>, its floats by the real
  numbers they denote (no rounding of arithmetic, no NaN, no infinities), its strings by
  \<open>string\<close>, its dictionaries by association lists read with \<open>map_of\<close>.
  An \<open>AdoptionCenter\<close> is a mutable object: the centers live in a store indexed by
  object identity, and every operation that receives a center receives its identity.
  The module-level generator of \<open>random\<close> is the second component of the state: the
  sequence of the values that the coming calls of \<open>random.random()\<close> return.
\<close>

subsection \<open>Values and errors\<close>

datatype error = TypeError | AttributeError | KeyError | ValueError | IndexError

text \<open>The Python values that a score can be: an \<open>int\<close>, a \<open>float\<close> or a \<open>str\<close>.\<close>

datatype pyval = PInt int | PFloat real | PStr string

type_synonym 'v dict = "(string \<times> 'v) list"

text \<open>\<open>d[k] = v\<close>: the entry of a key that is present is replaced.\<close>

fun dict_set :: "string \<Rightarrow> 'v \<Rightarrow> 'v dict \<Rightarrow> 'v dict" where
  "dict_set k v [] = [(k, v)]"
| "dict_set k v (p # ps) = (if fst p = k then (k, v) # ps else p # dict_set k v ps)"

subsection \<open>The format \<open>'%.1f'\<close> and the conversion \<open>float()\<close>\<close>

definition digit_char :: "nat \<Rightarrow> char" where
  "digit_char d = ''0123456789'' ! d"

fun str_nat :: "nat \<Rightarrow> string" where
  "str_nat n = (if n < 10 then [digit_char n] else str_nat (n div 10) @ [digit_char (n mod 10)])"

declare str_nat.simps [simp del]

text \<open>Rounding to the nearest integer, a tie going to the even neighbour.\<close>

definition round_half_even :: "real \<Rightarrow> int" where
  "round_half_even y =
     (let f = \<lfloor>y\<rfloor>; r = y - of_int f
      in if r < 1/2 then f else if 1/2 < r then f + 1 else if even f then f else f + 1)"

text \<open>The number of tenths that \<open>'%.1f' % x\<close> prints, sign apart.\<close>

definition tenths :: "real \<Rightarrow> nat" where
  "tenths x = nat (round_half_even (10 * \<bar>x\<bar>))"

text \<open>\<open>'%.1f' % x\<close>: sign, integer digits, the point, one digit.\<close>

definition fmt1 :: "real \<Rightarrow> string" where
  "fmt1 x =
     (if x < 0 then ''-'' else '''') @
     str_nat (tenths x div 10) @ ''.'' @ [digit_char (tenths x mod 10)]"

text \<open>The value of a decimal digit; \<open>None\<close> for any other character.\<close>

definition digit_val :: "char \<Rightarrow> nat option" where
  "digit_val c = map_of (zip ''0123456789'' [0, 1, 2, 3, 4, 5, 6, 7, 8, 9]) c"

fun parse_digits :: "string \<Rightarrow> nat \<Rightarrow> nat option" where
  "parse_digits [] acc = Some acc"
| "parse_digits (c # cs) acc =
     (case digit_val c of None \<Rightarrow> None | Some d \<Rightarrow> parse_digits cs (10 * acc + d))"

text \<open>
  An unsigned decimal: digits, and optionally a point followed by digits, with a digit
  on at least one side of the point.
\<close>

definition parse_unsigned :: "string \<Rightarrow> real option" where
  "parse_unsigned s =
     (let ip = takeWhile (\<lambda>c. c \<noteq> CHR ''.'') s;
          fp = drop (length ip + 1) s
      in if ip = [] \<and> fp = [] then None
         else case (parse_digits ip 0, parse_digits fp 0) of
                (Some i, Some f) \<Rightarrow> Some (real i + real f / 10 ^ length fp)
              | _ \<Rightarrow> None)"

text \<open>
  \<open>float(s)\<close> for a string in plain decimal notation (an optional minus sign and an
  unsigned decimal), which is the notation \<open>'%.1f'\<close> writes; any other string is a
  \<open>ValueError\<close> here.
\<close>

definition float_of_string :: "string \<Rightarrow> error + real" where
  "float_of_string s =
     (case s of
        [] \<Rightarrow> Inl ValueError
      | c # cs \<Rightarrow>
          if c = CHR ''-''
          then (case parse_unsigned cs of None \<Rightarrow> Inl ValueError | Some r \<Rightarrow> Inr (- r))
          else (case parse_unsigned s of None \<Rightarrow> Inl ValueError | Some r \<Rightarrow> Inr r))"

fun py_float :: "pyval \<Rightarrow> error + real" where
  "py_float (PInt i) = Inr (of_int i)"
| "py_float (PFloat x) = Inr x"
| "py_float (PStr s) = float_of_string s"

subsection \<open>Built-ins: \<open>min\<close>, indexing, slicing, \<open>bisect.bisect\<close>, \<open>random.uniform\<close>\<close>

fun py_min :: "real list \<Rightarrow> error + real" where
  "py_min [] = Inl ValueError"
| "py_min (x # xs) = Inr (fold min xs x)"

text \<open>\<open>xs[i]\<close>: a negative index counts from the end.\<close>

definition py_index :: "'a list \<Rightarrow> int \<Rightarrow> error + 'a" where
  "py_index xs i =
     (if 0 \<le> i \<and> i < int (length xs) then Inr (xs ! nat i)
      else if i < 0 \<and> - int (length xs) \<le> i then Inr (xs ! nat (int (length xs) + i))
      else Inl IndexError)"

text \<open>\<open>xs[:n]\<close>: a negative bound counts from the end.\<close>

definition py_slice_to :: "'a list \<Rightarrow> int \<Rightarrow> 'a list" where
  "py_slice_to xs n =
     (if 0 \<le> n then take (nat n) xs else take (nat (int (length xs) + n)) xs)"

text \<open>The loop of \<open>bisect.bisect\<close> (that is \<open>bisect_right\<close>) between \<open>lo\<close> and \<open>hi\<close>.\<close>

function bisect_loop :: "real list \<Rightarrow> real \<Rightarrow> nat \<Rightarrow> nat \<Rightarrow> nat" where
  "bisect_loop a x lo hi =
     (if lo < hi
      then (let mid = (lo + hi) div 2
            in if x < a ! mid then bisect_loop a x lo mid else bisect_loop a x (mid + 1) hi)
      else lo)"
  by pat_completeness auto
termination
  by (relation "measure (\<lambda>(a, x, lo, hi). hi - lo)") auto

declare bisect_loop.simps [simp del]

definition bisect :: "real list \<Rightarrow> real \<Rightarrow> nat" where
  "bisect a x = bisect_loop a x 0 (length a)"

subsection \<open>The state: the centers and the random generator\<close>

record AdoptionCenter =
  name :: string
  species_types :: "int dict"
  location :: "real \<times> real"

record world =
  heap :: "nat \<Rightarrow> AdoptionCenter"
  rand :: "nat \<Rightarrow> real"

text \<open>\<open>random.random()\<close> takes the next value of the sequence.\<close>

definition random :: "world \<Rightarrow> real \<times> world" where
  "random w = (rand w 0, w\<lparr>rand := (\<lambda>k. rand w (Suc k))\<rparr>)"

text \<open>\<open>random.uniform(a, b)\<close> is \<open>a + (b - a) * random()\<close>.\<close>

definition uniform :: "real \<Rightarrow> real \<Rightarrow> world \<Rightarrow> real \<times> world" where
  "uniform a b w = (case random w of (u, w') \<Rightarrow> (a + (b - a) * u, w'))"

subsection \<open>AdoptionCenter\<close>

definition get_number_of_species :: "world \<Rightarrow> nat \<Rightarrow> string \<Rightarrow> int" where
  "get_number_of_species w self animal =
     (case map_of (species_types (heap w self)) animal of Some n \<Rightarrow> n | None \<Rightarrow> 0)"

definition get_location :: "world \<Rightarrow> nat \<Rightarrow> real \<times> real" where
  "get_location w self = location (heap w self)"

definition AdoptionCenter_get_name :: "world \<Rightarrow> nat \<Rightarrow> string" where
  "AdoptionCenter_get_name w self = name (heap w self)"

text \<open>\<open>d.keys(*args)\<close>: the method takes no argument.\<close>

definition dict_keys :: "'v dict \<Rightarrow> int list \<Rightarrow> error + string list" where
  "dict_keys d args = (if args = [] then Inr (map fst d) else Inl TypeError)"

text \<open>
  The loop of \<open>adopt_pet\<close>: \<open>self.species_types[x].remove()\<close> is reached for a count
  that is not positive, and an \<open>int\<close> has no attribute \<open>remove\<close>.
\<close>

fun adopt_pet_loop :: "int dict \<Rightarrow> string list \<Rightarrow> error + unit" where
  "adopt_pet_loop d [] = Inr ()"
| "adopt_pet_loop d (x # xs) =
     (case map_of d x of
        None \<Rightarrow> Inl KeyError
      | Some v \<Rightarrow> if v \<le> 0 then Inl AttributeError else adopt_pet_loop d xs)"

definition adopt_pet :: "nat \<Rightarrow> string \<Rightarrow> world \<Rightarrow> (error + unit) \<times> world" where
  "adopt_pet self species w =
     (let d = species_types (heap w self)
      in case dict_keys d [0] of
           Inl e \<Rightarrow> (Inl e, w)
         | Inr ks \<Rightarrow>
             (case adopt_pet_loop d ks of
                Inl e \<Rightarrow> (Inl e, w)
              | Inr u \<Rightarrow>
                  (case map_of d species of
                     None \<Rightarrow> (Inl KeyError, w)
                   | Some v \<Rightarrow>
                       (Inr (),
                        w\<lparr>heap := (heap w)
                            (self := (heap w self)
                               \<lparr>species_types := dict_set species (v - 1) d\<rparr>)\<rparr>))))"

subsection \<open>Adopter and its subclasses\<close>

text \<open>
  The fields are, in this order: \<open>name\<close>, \<open>desired_species\<close>, and what the subclass
  adds (\<open>considered_species\<close>, \<open>feared_species\<close>, \<open>allergic_species\<close>, then
  \<open>medicine_effectiveness\<close>, or \<open>location\<close>). The field \<open>score\<close> is the constant
  \<open>'%.1f'\<close> for every adopter.
\<close>

datatype adopter =
  Adopter string string
| FlexibleAdopter string string "string list"
| FearfulAdopter string string "string list"
| AllergicAdopter string string "string list"
| MedicatedAllergicAdopter string string "string list" "real dict"
| SluggishAdopter string string "real \<times> real"

fun Adopter_get_name :: "adopter \<Rightarrow> string" where
  "Adopter_get_name (Adopter n d) = n"
| "Adopter_get_name (FlexibleAdopter n d cs) = n"
| "Adopter_get_name (FearfulAdopter n d fs) = n"
| "Adopter_get_name (AllergicAdopter n d als) = n"
| "Adopter_get_name (MedicatedAllergicAdopter n d als me) = n"
| "Adopter_get_name (SluggishAdopter n d loc) = n"

fun get_desired_species :: "adopter \<Rightarrow> string" where
  "get_desired_species (Adopter n d) = d"
| "get_desired_species (FlexibleAdopter n d cs) = d"
| "get_desired_species (FearfulAdopter n d fs) = d"
| "get_desired_species (AllergicAdopter n d als) = d"
| "get_desired_species (MedicatedAllergicAdopter n d als me) = d"
| "get_desired_species (SluggishAdopter n d loc) = d"

text \<open>\<open>Adopter.get_score\<close>, which every subclass reaches as \<open>self._get_score\<close>.\<close>

definition Adopter_get_score :: "adopter \<Rightarrow> nat \<Rightarrow> world \<Rightarrow> int" where
  "Adopter_get_score self adoption_center w =
     get_number_of_species w adoption_center (get_desired_species self)"

definition get_score_other :: "nat \<Rightarrow> string \<Rightarrow> world \<Rightarrow> int" where
  "get_score_other adoption_center other w = get_number_of_species w adoption_center other"

text \<open>The local variable \<open>score\<close> of \<open>FlexibleAdopter.get_score\<close>.\<close>

definition flexible_score :: "adopter \<Rightarrow> string list \<Rightarrow> nat \<Rightarrow> world \<Rightarrow> real" where
  "flexible_score self considered_species adoption_center w =
     of_int (Adopter_get_score self adoption_center w) +
     0.3 * of_int (sum_list (map (\<lambda>x. get_score_other adoption_center x w) considered_species))"

text \<open>The local variable \<open>score\<close> of \<open>FearfulAdopter.get_score\<close>.\<close>

definition fearful_score :: "adopter \<Rightarrow> string list \<Rightarrow> nat \<Rightarrow> world \<Rightarrow> real" where
  "fearful_score self feared_species adoption_center w =
     of_int (Adopter_get_score self adoption_center w) -
     0.3 * of_int (sum_list (map (\<lambda>x. get_score_other adoption_center x w) feared_species))"

text \<open>
  The condition of both allergic adopters:
  \<open>all(not adoption_center.get_number_of_species(i) for i in self.allergic_species)\<close>.
\<close>

definition none_present :: "string list \<Rightarrow> nat \<Rightarrow> world \<Rightarrow> bool" where
  "none_present allergic_species adoption_center w =
     list_all (\<lambda>i. get_number_of_species w adoption_center i = 0) allergic_species"

text \<open>
  The list that \<open>MedicatedAllergicAdopter.get_score\<close> takes the minimum of. The inner
  list holds the species itself when the center has some and the integer \<open>0\<close>
  otherwise (\<open>None\<close> below); \<open>0\<close> is no key of \<open>medicine_effectiveness\<close>, whose keys are
  species names, so it contributes \<open>1\<close> like a species without an entry.
\<close>

definition coefficients :: "string list \<Rightarrow> real dict \<Rightarrow> nat \<Rightarrow> world \<Rightarrow> real list" where
  "coefficients allergic_species medicine_effectiveness adoption_center w =
     map (\<lambda>i. case i of
                 None \<Rightarrow> 1
               | Some s \<Rightarrow> (case map_of medicine_effectiveness s of Some e \<Rightarrow> e | None \<Rightarrow> 1))
       (map (\<lambda>x. if get_number_of_species w adoption_center x \<noteq> 0 then Some x else None)
          allergic_species)"

definition distance :: "real \<times> real \<Rightarrow> nat \<Rightarrow> world \<Rightarrow> real" where
  "distance loc adoption_center w =
     sqrt ((fst (get_location w adoption_center) - fst loc)\<^sup>2 +
           (snd (get_location w adoption_center) - snd loc)\<^sup>2)"

definition breakpoints :: "real list" where
  "breakpoints = [1, 3, 5, 7]"

fun get_score :: "adopter \<Rightarrow> nat \<Rightarrow> world \<Rightarrow> (error + pyval) \<times> world" where
  "get_score (Adopter n d) adoption_center w =
     (Inr (PInt (Adopter_get_score (Adopter n d) adoption_center w)), w)"
| "get_score (FlexibleAdopter n d cs) adoption_center w =
     (Inr (PStr (fmt1 (flexible_score (FlexibleAdopter n d cs) cs adoption_center w))), w)"
| "get_score (FearfulAdopter n d fs) adoption_center w =
     (Inr (PStr (fmt1 (fearful_score (FearfulAdopter n d fs) fs adoption_center w))), w)"
| "get_score (AllergicAdopter n d als) adoption_center w =
     (if none_present als adoption_center w
      then (Inr (PStr (fmt1 (of_int
              (Adopter_get_score (AllergicAdopter n d als) adoption_center w)))), w)
      else (Inr (PInt 0), w))"
| "get_score (MedicatedAllergicAdopter n d als me) adoption_center w =
     (if none_present als adoption_center w
      then (Inr (PStr (fmt1 (of_int
              (Adopter_get_score (MedicatedAllergicAdopter n d als me) adoption_center w)))), w)
      else (case py_min (coefficients als me adoption_center w) of
              Inl e \<Rightarrow> (Inl e, w)
            | Inr coefficient \<Rightarrow>
                (Inr (PStr (fmt1 (coefficient * of_int
                   (Adopter_get_score (MedicatedAllergicAdopter n d als me) adoption_center w)))),
                 w)))"
| "get_score (SluggishAdopter n d loc) adoption_center w =
     (let score = Adopter_get_score (SluggishAdopter n d loc) adoption_center w;
          dist = distance loc adoption_center w
      in case uniform 0.7 0.9 w of (m1, w1) \<Rightarrow>
         case uniform 0.5 0.7 w1 of (m2, w2) \<Rightarrow>
         case uniform 0.1 0.5 w2 of (m3, w3) \<Rightarrow>
           (case py_index [1, m1, m2, m3] (int (bisect breakpoints dist) - 1) of
              Inl e \<Rightarrow> (Inl e, w3)
            | Inr m \<Rightarrow> (Inr (PStr (fmt1 (of_int score * m))), w3)))"

subsection \<open>The ranking functions\<close>

text \<open>The sort key \<open>lambda x: (float(x[1]), x[0])\<close>.\<close>

definition rank_key :: "string \<times> pyval \<Rightarrow> error + real \<times> string" where
  "rank_key x = (case py_float (snd x) of Inl e \<Rightarrow> Inl e | Inr f \<Rightarrow> Inr (f, fst x))"

text \<open>\<open>sorted\<close> computes the key of every element first; an error of the key ends it.\<close>

fun decorate :: "('a \<Rightarrow> error + 'k) \<Rightarrow> 'a list \<Rightarrow> error + ('k \<times> 'a) list" where
  "decorate key [] = Inr []"
| "decorate key (x # xs) =
     (case key x of
        Inl e \<Rightarrow> Inl e
      | Inr k \<Rightarrow> (case decorate key xs of Inl e \<Rightarrow> Inl e | Inr ds \<Rightarrow> Inr ((k, x) # ds)))"

text \<open>
  \<open>sorted(xs, key=key, reverse=True)\<close>: the list is reversed, sorted by a stable sort on
  the keys, and reversed again.
\<close>

definition sorted_reverse :: "('a \<Rightarrow> error + 'k::linorder) \<Rightarrow> 'a list \<Rightarrow> error + 'a list" where
  "sorted_reverse key xs =
     (case decorate key xs of
        Inl e \<Rightarrow> Inl e
      | Inr ds \<Rightarrow> Inr (map snd (rev (sort_key fst (rev ds)))))"

text \<open>
  A dictionary comprehension \<open>{k: v for i in xs}\<close>, where \<open>item i\<close> computes the pair of
  \<open>k\<close> and \<open>v\<close> for \<open>i\<close>. The entries are kept in the order of their first insertion; the
  order in which Python 2 lists them is not specified, and the sort that follows does not
  depend on it (lemma \<open>sorted_reverse_items_order\<close>).
\<close>

fun dict_comprehension ::
  "('x \<Rightarrow> world \<Rightarrow> (error + string \<times> pyval) \<times> world) \<Rightarrow> 'x list \<Rightarrow> pyval dict \<Rightarrow> world \<Rightarrow>
   (error + pyval dict) \<times> world" where
  "dict_comprehension item [] d w = (Inr d, w)"
| "dict_comprehension item (i # is) d w =
     (case item i w of
        (Inl e, w') \<Rightarrow> (Inl e, w')
      | (Inr (k, v), w') \<Rightarrow> dict_comprehension item is (dict_set k v d) w')"

text \<open>\<open>i.get_name(): adopter.get_score(i)\<close>\<close>

definition center_item :: "adopter \<Rightarrow> nat \<Rightarrow> world \<Rightarrow> (error + string \<times> pyval) \<times> world" where
  "center_item adopter i w =
     (case get_score adopter i w of
        (Inl e, w') \<Rightarrow> (Inl e, w')
      | (Inr v, w') \<Rightarrow> (Inr (AdoptionCenter_get_name w' i, v), w'))"

text \<open>\<open>i.get_name(): i.get_score(adoption_center)\<close>\<close>

definition adopter_item :: "nat \<Rightarrow> adopter \<Rightarrow> world \<Rightarrow> (error + string \<times> pyval) \<times> world" where
  "adopter_item adoption_center i w =
     (case get_score i adoption_center w of
        (Inl e, w') \<Rightarrow> (Inl e, w')
      | (Inr v, w') \<Rightarrow> (Inr (Adopter_get_name i, v), w'))"

text \<open>The result of both functions is a dictionary with one entry.\<close>

definition get_ordered_adoption_center_list ::
  "adopter \<Rightarrow> nat list \<Rightarrow> world \<Rightarrow> (error + (string \<times> pyval) list dict) \<times> world" where
  "get_ordered_adoption_center_list adopter list_of_adoption_centers w =
     (case dict_comprehension (center_item adopter) list_of_adoption_centers [] w of
        (Inl e, w') \<Rightarrow> (Inl e, w')
      | (Inr d, w') \<Rightarrow>
          (case sorted_reverse rank_key d of
             Inl e \<Rightarrow> (Inl e, w')
           | Inr sorted_ac \<Rightarrow> (Inr [(Adopter_get_name adopter, sorted_ac)], w')))"

definition get_adopters_for_advertisement ::
  "nat \<Rightarrow> adopter list \<Rightarrow> int \<Rightarrow> world \<Rightarrow> (error + (string \<times> pyval) list dict) \<times> world" where
  "get_adopters_for_advertisement adoption_center list_of_adopters n w =
     (case dict_comprehension (adopter_item adoption_center) list_of_adopters [] w of
        (Inl e, w') \<Rightarrow> (Inl e, w')
      | (Inr d, w') \<Rightarrow>
          (case sorted_reverse rank_key d of
             Inl e \<Rightarrow> (Inl e, w')
           | Inr sorted_adopters \<Rightarrow>
               (Inr [(AdoptionCenter_get_name w' adoption_center, py_slice_to sorted_adopters n)],
                w')))"

subsection \<open>Notions used in the statements\<close>

text \<open>The number that \<open>'%.1f' % x\<close> denotes: \<open>x\<close> rounded to one decimal place.\<close>

definition round1 :: "real \<Rightarrow> real" where
  "round1 x = (if x < 0 then - (real (tenths x) / 10) else real (tenths x) / 10)"

text \<open>
  Objects of the demonstration at the end of the script, and a state that holds the
  centers under the identities 0, 1 and 2, with a generator whose every draw is \<open>1/2\<close>.
\<close>

definition ac :: AdoptionCenter where
  "ac = \<lparr>name = ''Place1'', species_types = [(''Cat'', 12), (''Dog'', 2)], location = (1, 1)\<rparr>"

definition ac2 :: AdoptionCenter where
  "ac2 = \<lparr>name = ''Place2'', species_types = [(''Cat'', 12), (''Lizard'', 2)], location = (3, 5)\<rparr>"

definition ac3 :: AdoptionCenter where
  "ac3 = \<lparr>name = ''Place3'', species_types = [(''Cat'', 40), (''Dog'', 4)], location = (-2, 10)\<rparr>"

definition demo_world :: world where
  "demo_world =
     \<lparr>heap = (\<lambda>i. if i = 0 then ac else if i = 1 then ac2 else ac3), rand = (\<lambda>k. 1 / 2)\<rparr>"

text \<open>
  The coefficient of \<open>SluggishAdopter.get_score\<close>, \<open>mapping[bisect.bisect(breakpoints,
  distance) - 1]\<close>, written with the three draws that \<open>random.uniform\<close> takes.
\<close>

definition sluggish_coefficient :: "real \<times> real \<Rightarrow> nat \<Rightarrow> world \<Rightarrow> real" where
  "sluggish_coefficient loc adoption_center w =
     (case py_index [1, 0.7 + (0.9 - 0.7) * rand w 0, 0.5 + (0.7 - 0.5) * rand w 1,
                     0.1 + (0.5 - 0.1) * rand w 2]
             (int (bisect breakpoints (distance loc adoption_center w)) - 1) of
        Inr m \<Rightarrow> m
      | Inl e \<Rightarrow> 0)"

text \<open>
  The number that \<open>get_score\<close> computes before it formats it: the local variable
  \<open>score\<close> of each subclass, and the integer that the two unformatted returns give.
\<close>

fun raw_score :: "adopter \<Rightarrow> nat \<Rightarrow> world \<Rightarrow> real" where
  "raw_score (Adopter n d) c w = of_int (Adopter_get_score (Adopter n d) c w)"
| "raw_score (FlexibleAdopter n d cs) c w = flexible_score (FlexibleAdopter n d cs) cs c w"
| "raw_score (FearfulAdopter n d fs) c w = fearful_score (FearfulAdopter n d fs) fs c w"
| "raw_score (AllergicAdopter n d als) c w =
     (if none_present als c w then of_int (Adopter_get_score (AllergicAdopter n d als) c w)
      else 0)"
| "raw_score (MedicatedAllergicAdopter n d als me) c w =
     (if none_present als c w
      then of_int (Adopter_get_score (MedicatedAllergicAdopter n d als me) c w)
      else (case py_min (coefficients als me c w) of
              Inr m \<Rightarrow> m * of_int (Adopter_get_score (MedicatedAllergicAdopter n d als me) c w)
            | Inl e \<Rightarrow> 0))"
| "raw_score (SluggishAdopter n d loc) c w =
     of_int (Adopter_get_score (SluggishAdopter n d loc) c w) * sluggish_coefficient loc c w"

text \<open>
  The Python value that stands for it: an \<open>int\<close> where the code returns the count or
  \<open>0\<close> as it is, the string \<open>'%.1f' % score\<close> everywhere else.
\<close>

fun score_value :: "adopter \<Rightarrow> nat \<Rightarrow> world \<Rightarrow> pyval" where
  "score_value (Adopter n d) c w = PInt (get_number_of_species w c d)"
| "score_value (AllergicAdopter n d als) c w =
     (if none_present als c w then PStr (fmt1 (raw_score (AllergicAdopter n d als) c w))
      else PInt 0)"
| "score_value a c w = PStr (fmt1 (raw_score a c w))"

text \<open>\<open>str(k)\<close> for an integer: a minus sign when negative, and the decimal digits.\<close>

definition str_int :: "int \<Rightarrow> string" where
  "str_int k = (if k < 0 then ''-'' else '''') @ str_nat (nat \<bar>k\<bar>)"

text \<open>A state whose centers all list a negative count of dogs.\<close>

definition overdrawn_world :: world where
  "overdrawn_world =
     \<lparr>heap = (\<lambda>i. \<lparr>name = ''Place1'', species_types = [(''Cat'', 12), (''Dog'', - 1)],
                      location = (1, 1)\<rparr>),
      rand = (\<lambda>k. 1 / 2)\<rparr>"




text \<open>
  The number that the sort key reads off a score with \<open>float()\<close> (\<open>0\<close> stands in where
  \<open>float()\<close> fails), the key itself, and the order of the result: the greater number
  first and, between equal numbers, the greater name first.
\<close>

definition sort_value :: "pyval \<Rightarrow> real" where
  "sort_value v = (case py_float v of Inr r \<Rightarrow> r | Inl e \<Rightarrow> 0)"

definition key_of :: "string \<times> pyval \<Rightarrow> real \<times> string" where
  "key_of x = (sort_value (snd x), fst x)"

definition ranks_before :: "string \<times> pyval \<Rightarrow> string \<times> pyval \<Rightarrow> bool" where
  "ranks_before x y =
     (sort_value (snd y) < sort_value (snd x) \<or>
      sort_value (snd y) = sort_value (snd x) \<and> fst y < fst x)"

text \<open>What \<open>sorted(..., reverse=True)\<close> makes of a dictionary whose keys can all be computed.\<close>

definition ranking :: "pyval dict \<Rightarrow> (string \<times> pyval) list" where
  "ranking d = rev (sort_key key_of (rev d))"

text \<open>
  A score that reads as a number below \<open>2^49\<close> in magnitude: there the floats of two
  different numbers with one decimal are different, and in the same order.
\<close>

definition plain_score :: "pyval \<Rightarrow> bool" where
  "plain_score v = (case py_float v of Inr r \<Rightarrow> \<bar>r\<bar> < 2 ^ 49 | Inl e \<Rightarrow> False)"

text \<open>A state with two centers of the same name: 12 cats and 2 dogs, and 40 cats.\<close>

definition twin_world :: world where
  "twin_world =
     \<lparr>heap = (\<lambda>i. if i = 0 then ac else ac\<lparr>species_types := [(''Cat'', 40)]\<rparr>),
      rand = (\<lambda>k. 1 / 2)\<rparr>"

section \<open>Properties\<close>

subsection \<open>Formatting and reading back\<close>

lemma less_ten_cases:
  "(d::nat) < 10 \<Longrightarrow>
     d = 0 \<or> d = 1 \<or> d = 2 \<or> d = 3 \<or> d = 4 \<or> d = 5 \<or> d = 6 \<or> d = 7 \<or> d = 8 \<or> d = 9"
  by arith

lemma digit_val_digit_char: "d < 10 \<Longrightarrow> digit_val (digit_char d) = Some d"
  by (drule less_ten_cases) (auto simp: digit_val_def digit_char_def)

lemma digit_char_not_point: "d < 10 \<Longrightarrow> digit_char d \<noteq> CHR ''.''"
  using digit_val_digit_char [of d] by (auto simp: digit_val_def)

lemma digit_char_not_minus: "d < 10 \<Longrightarrow> digit_char d \<noteq> CHR ''-''"
  using digit_val_digit_char [of d] by (auto simp: digit_val_def)

lemma parse_digits_snoc:
  "parse_digits (cs @ [c]) acc =
     (case parse_digits cs acc of
        None \<Rightarrow> None
      | Some m \<Rightarrow> (case digit_val c of None \<Rightarrow> None | Some d \<Rightarrow> Some (10 * m + d)))"
  by (induction cs arbitrary: acc) (auto split: option.splits)

lemma parse_digits_str_nat: "parse_digits (str_nat n) 0 = Some n"
proof (induction n rule: str_nat.induct)
  case (1 n)
  show ?case
  proof (cases "n < 10")
    case True
    then show ?thesis
      by (subst str_nat.simps) (simp add: digit_val_digit_char)
  next
    case False
    with 1 have "parse_digits (str_nat (n div 10)) 0 = Some (n div 10)"
      by simp
    with False show ?thesis
      by (subst str_nat.simps) (simp add: parse_digits_snoc digit_val_digit_char)
  qed
qed

lemma str_nat_no_point: "CHR ''.'' \<notin> set (str_nat n)"
proof (induction n rule: str_nat.induct)
  case (1 n)
  show ?case
  proof (cases "n < 10")
    case True
    then show ?thesis
      using digit_char_not_point [of n] by (subst str_nat.simps) auto
  next
    case False
    with 1 have "CHR ''.'' \<notin> set (str_nat (n div 10))"
      by simp
    with False show ?thesis
      using digit_char_not_point [of "n mod 10"]
      by (subst str_nat.simps) simp
  qed
qed

lemma str_nat_not_Nil: "str_nat n \<noteq> []"
  by (subst str_nat.simps) simp

lemma hd_str_nat_not_minus: "hd (str_nat n) \<noteq> CHR ''-''"
proof (induction n rule: str_nat.induct)
  case (1 n)
  show ?case
  proof (cases "n < 10")
    case True
    then show ?thesis
      by (subst str_nat.simps) (simp add: digit_char_not_minus)
  next
    case False
    with 1 have "hd (str_nat (n div 10)) \<noteq> CHR ''-''"
      by simp
    with False show ?thesis
      by (subst str_nat.simps) (simp add: str_nat_not_Nil)
  qed
qed

lemma parse_unsigned_tenths:
  "d < 10 \<Longrightarrow> parse_unsigned (str_nat m @ ''.'' @ [digit_char d]) = Some (real m + real d / 10)"
proof -
  assume d: "d < 10"
  have "takeWhile (\<lambda>c. c \<noteq> CHR ''.'') (str_nat m @ ''.'' @ [digit_char d]) =
      str_nat m @ takeWhile (\<lambda>c. c \<noteq> CHR ''.'') (''.'' @ [digit_char d])"
    using str_nat_no_point [of m] by (intro takeWhile_append2) auto
  then have tw: "takeWhile (\<lambda>c. c \<noteq> CHR ''.'') (str_nat m @ ''.'' @ [digit_char d]) = str_nat m"
    by simp
  show ?thesis
    unfolding parse_unsigned_def tw
    by (simp add: Let_def str_nat_not_Nil parse_digits_str_nat digit_val_digit_char d)
qed

lemma float_of_string_fmt1: "float_of_string (fmt1 x) = Inr (round1 x)"
proof -
  let ?body = "str_nat (tenths x div 10) @ ''.'' @ [digit_char (tenths x mod 10)]"
  have pu: "parse_unsigned ?body = Some (real (tenths x) / 10)"
  proof -
    have "parse_unsigned ?body = Some (real (tenths x div 10) + real (tenths x mod 10) / 10)"
      by (rule parse_unsigned_tenths) simp
    moreover have "real (tenths x div 10) + real (tenths x mod 10) / 10 = real (tenths x) / 10"
    proof -
      have "real (tenths x) = real (10 * (tenths x div 10) + tenths x mod 10)"
        by simp
      then show ?thesis
        by (simp only: of_nat_add of_nat_mult) simp
    qed
    ultimately show ?thesis by simp
  qed
  show ?thesis
  proof (cases "x < 0")
    case True
    with pu show ?thesis
      by (simp add: fmt1_def float_of_string_def round1_def)
  next
    case False
    obtain c cs where b: "str_nat (tenths x div 10) = c # cs"
      using str_nat_not_Nil [of "tenths x div 10"] by (cases "str_nat (tenths x div 10)") auto
    have "c \<noteq> CHR ''-''"
      using hd_str_nat_not_minus [of "tenths x div 10"] b by simp
    with False b pu show ?thesis
      by (simp add: fmt1_def float_of_string_def round1_def)
  qed
qed

subsection \<open>adopt_pet\<close>

text \<open>
  Claim C7 says that \<open>adopt_pet(S)\<close> takes one animal of species \<open>S\<close> off the inventory
  when the center has one, and fails with an out-of-stock error otherwise. The code
  does neither: its first statement calls \<open>keys\<close> with an argument, so every call ends
  with a \<open>TypeError\<close> and leaves the state as it was, whatever the inventory holds.
\<close>

theorem adopt_pet_type_error: "adopt_pet self species w = (Inl TypeError, w)"
  by (simp add: adopt_pet_def dict_keys_def)

theorem adopt_pet_type_error_demo:
  "adopt_pet 0 ''Cat'' demo_world = (Inl TypeError, demo_world)
   \<and> get_number_of_species demo_world 0 ''Cat'' = 12"
  using adopt_pet_type_error [of 0 "''Cat''" demo_world]
  by (simp add: get_number_of_species_def demo_world_def ac_def)

subsection \<open>Scoring leaves the centers alone\<close>

lemma uniform_heap: "heap (snd (uniform a b w)) = heap w"
  by (simp add: uniform_def random_def)

text \<open>
  Claim C9: for every adopter and every center, \<open>get_score\<close> changes no center: the
  store of the centers (name, inventory and location of each) is the same after the
  call as before it. Only the random generator may have moved on.
\<close>

theorem get_score_heap: "heap (snd (get_score a c w)) = heap w"
proof (cases a)
  case (SluggishAdopter n d loc)
  then show ?thesis
    by (simp add: uniform_def random_def Let_def split: sum.splits prod.splits)
qed (simp_all split: sum.splits)

theorem get_score_heap_demo:
  "heap (snd (get_score (SluggishAdopter ''Five'' ''Cat'' (1, 2)) 0 demo_world)) 0 = ac"
  using get_score_heap [of "SluggishAdopter ''Five'' ''Cat'' (1, 2)" 0 demo_world]
  by (simp add: demo_world_def)

subsection \<open>What get_score returns\<close>

lemmas fmt1_eval = fmt1_def tenths_def round_half_even_def str_nat.simps digit_char_def Let_def

lemmas demo_eval = demo_world_def ac_def ac2_def ac3_def get_number_of_species_def
  Adopter_get_score_def get_score_other_def

lemma bisect_breakpoints:
  "bisect breakpoints x =
     (if x < 1 then 0 else if x < 3 then 1 else if x < 5 then 2 else if x < 7 then 3 else 4)"
proof -
  consider "x < 1" | "1 \<le> x" "x < 3" | "3 \<le> x" "x < 5" | "5 \<le> x" "x < 7" | "7 \<le> x"
    by linarith
  then show ?thesis
    by cases (simp_all add: bisect_def breakpoints_def bisect_loop.simps Let_def)
qed

lemma py_min_coefficients:
  "\<not> none_present als c w \<Longrightarrow> \<exists>m. py_min (coefficients als me c w) = Inr m"
  by (cases als) (simp_all add: none_present_def coefficients_def)

lemma sluggish_index:
  "\<exists>m. py_index [a, b, c, d] (int (bisect breakpoints x) - 1) = Inr m"
  by (simp add: bisect_breakpoints py_index_def)

text \<open>
  Claim C6 says that \<open>get_score\<close> returns a float for every adopter, not a formatted
  string. The code formats on purpose: every adopter carries the pattern \<open>'%.1f'\<close> in
  its field \<open>score\<close> and the subclasses return \<open>self.score % score\<close>. The
  \<open>FearfulAdopter\<close> of the demonstration gets the string \<open>'11.4'\<close> at the first center.
\<close>

theorem fearful_returns_string:
  "fst (get_score (FearfulAdopter ''Four'' ''Cat'' [''Dog'']) 0 demo_world) = Inr (PStr ''11.4'')"
  by (simp add: fearful_score_def demo_eval fmt1_eval)

text \<open>In the model every call returns, with the value that \<open>score_value\<close> describes.\<close>

lemma get_score_result: "fst (get_score a c w) = Inr (score_value a c w)"
proof (cases a)
  case (MedicatedAllergicAdopter n d als me)
  show ?thesis
  proof (cases "none_present als c w")
    case True
    with MedicatedAllergicAdopter show ?thesis by simp
  next
    case False
    then obtain m where "py_min (coefficients als me c w) = Inr m"
      using py_min_coefficients by blast
    with False MedicatedAllergicAdopter show ?thesis by simp
  qed
next
  case (SluggishAdopter n d loc)
  then show ?thesis
    using sluggish_index [of 1 "0.7 + (0.9 - 0.7) * rand w 0" "0.5 + (0.7 - 0.5) * rand w 1"
        "0.1 + (0.5 - 0.1) * rand w 2" "distance loc c w"]
    by (auto simp: uniform_def random_def Let_def sluggish_coefficient_def Adopter_get_score_def
        numeral_2_eq_2 split: sum.splits prod.splits)
qed (simp_all add: Adopter_get_score_def)

text \<open>
  C6 as amended: \<open>get_score\<close> never returns a float. Whenever it returns, the result is
  an \<open>int\<close> for a plain \<open>Adopter\<close> (the count as the inventory stores it) and for an
  \<open>AllergicAdopter\<close> at a center that holds one of its allergic species (the literal
  \<open>0\<close>), and a \<open>str\<close>, the result of \<open>self.score % score\<close> with the pattern \<open>'%.1f'\<close>,
  in every other case.
\<close>

theorem get_score_never_float:
  assumes "fst (get_score a c w) = Inr v"
  shows "(\<forall>x. v \<noteq> PFloat x) \<and>
     (case a of
        Adopter n d \<Rightarrow> v = PInt (get_number_of_species w c d)
      | AllergicAdopter n d als \<Rightarrow>
          if none_present als c w then (\<exists>s. v = PStr s) else v = PInt 0
      | _ \<Rightarrow> (\<exists>s. v = PStr s))"
proof -
  have v: "v = score_value a c w"
    using assms get_score_result [of a c w] by simp
  show ?thesis
    unfolding v by (cases a) simp_all
qed

theorem get_score_never_float_demo:
  "(\<exists>s. fst (get_score (FlexibleAdopter ''Three'' ''Horse'' [''Lizard'', ''Cat'']) 1 demo_world)
         = Inr (PStr s))
   \<and> fst (get_score (Adopter ''Two'' ''Cat'') 1 demo_world) = Inr (PInt 12)"
proof -
  obtain v where v: "fst (get_score (FlexibleAdopter ''Three'' ''Horse'' [''Lizard'', ''Cat''])
      1 demo_world) = Inr v"
    using get_score_result by blast
  obtain u where u: "fst (get_score (Adopter ''Two'' ''Cat'') 1 demo_world) = Inr u"
    using get_score_result by blast
  show ?thesis
    using get_score_never_float [OF v] get_score_never_float [OF u] v u
    by (simp add: demo_eval)
qed

subsection \<open>SluggishAdopter\<close>

lemma sluggish_coefficient_eq:
  "sluggish_coefficient loc c w =
     (if distance loc c w < 1 then 0.1 + 0.4 * rand w 2
      else if distance loc c w < 3 then 1
      else if distance loc c w < 5 then 0.7 + 0.2 * rand w 0
      else if distance loc c w < 7 then 0.5 + 0.2 * rand w 1
      else 0.1 + 0.4 * rand w 2)"
  by (simp add: sluggish_coefficient_def bisect_breakpoints py_index_def)

text \<open>
  Claim C1 says that the coefficient of a \<open>SluggishAdopter\<close> is \<open>1\<close> below distance 1,
  a draw from \<open>[0.7, 0.9)\<close> from 1 to 3, from \<open>[0.5, 0.7)\<close> from 3 to 5 and from
  \<open>[0.1, 0.5)\<close> from 5 on, as the docstring of the class does. The code indexes the list
  of coefficients with \<open>bisect.bisect(breakpoints, distance) - 1\<close>, which is one too
  low: below distance 1 the index is \<open>-1\<close>, the last entry, and every other range gets
  the coefficient that the claim gives to the range before it. What the code computes:
\<close>

theorem sluggish_score:
  "fst (get_score (SluggishAdopter n d loc) c w) =
     Inr (PStr (fmt1 (of_int (get_number_of_species w c d) *
       (if distance loc c w < 1 then 0.1 + 0.4 * rand w 2
        else if distance loc c w < 3 then 1
        else if distance loc c w < 5 then 0.7 + 0.2 * rand w 0
        else if distance loc c w < 7 then 0.5 + 0.2 * rand w 1
        else 0.1 + 0.4 * rand w 2))))"
  using get_score_result [of "SluggishAdopter n d loc" c w]
  by (simp add: sluggish_coefficient_eq Adopter_get_score_def)

theorem sluggish_score_demo:
  "fst (get_score (SluggishAdopter ''Five'' ''Cat'' (1, 2)) 0 demo_world) = Inr (PStr ''12.0'')
   \<and> fst (get_score (SluggishAdopter ''Five'' ''Cat'' (1, 1)) 0 demo_world) = Inr (PStr ''3.6'')"
  using sluggish_score [of "''Five''" "''Cat''" "(1, 2)" 0 demo_world]
    sluggish_score [of "''Five''" "''Cat''" "(1, 1)" 0 demo_world]
  by (simp add: distance_def get_location_def demo_eval fmt1_eval)

subsection \<open>AllergicAdopter\<close>

lemma round_half_even_of_int: "round_half_even (of_int m) = m"
  by (simp add: round_half_even_def)

lemma round1_of_int: "round1 (of_int k) = of_int k"
proof -
  have "10 * \<bar>real_of_int k\<bar> = of_int (10 * \<bar>k\<bar>)"
    by simp
  then have "tenths (of_int k) = nat (10 * \<bar>k\<bar>)"
    unfolding tenths_def by (simp only: round_half_even_of_int)
  then show ?thesis
    by (simp add: round1_def)
qed

lemma py_float_fmt1: "py_float (PStr (fmt1 x)) = Inr (round1 x)"
  by (simp add: float_of_string_fmt1)

lemma fmt1_of_int: "fmt1 (of_int k) = str_int k @ ''.0''"
proof -
  have "10 * \<bar>real_of_int k\<bar> = of_int (10 * \<bar>k\<bar>)"
    by simp
  then have "tenths (of_int k) = nat (10 * \<bar>k\<bar>)"
    unfolding tenths_def by (simp only: round_half_even_of_int)
  also have "\<dots> = 10 * nat \<bar>k\<bar>"
    by (simp add: nat_mult_distrib)
  finally show ?thesis
    by (simp add: fmt1_def str_int_def digit_char_def)
qed

text \<open>
  Claim C8 says that the score of an \<open>AllergicAdopter\<close> is \<open>0\<close> when an allergic species
  has a positive count at the center, and the count of the desired species otherwise.
  Where no allergic species is present the code returns the count formatted by
  \<open>'%.1f'\<close>, a string: \<open>'12.0'\<close> for 12 cats, which is not the number 12. And the
  test of the code is on a count that is not zero: with a count of \<open>-1\<close> dogs and no
  other allergic species the result is \<open>0\<close>, not the count of the desired species.
\<close>

theorem allergic_returns_string:
  "fst (get_score (AllergicAdopter ''Six'' ''Cat'' [''Dog'']) 1 demo_world) = Inr (PStr ''12.0'')
   \<and> PStr ''12.0'' \<noteq> PInt (get_number_of_species demo_world 1 ''Cat'')
   \<and> fst (get_score (AllergicAdopter ''Six'' ''Cat'' [''Dog'']) 0 overdrawn_world) = Inr (PInt 0)
   \<and> \<not> 0 < get_number_of_species overdrawn_world 0 ''Dog''
   \<and> get_number_of_species overdrawn_world 0 ''Cat'' = 12"
  by (simp add: none_present_def demo_eval overdrawn_world_def fmt1_eval)

text \<open>
  C8 as amended: \<open>get_score\<close> of an \<open>AllergicAdopter\<close> returns the integer \<open>0\<close> when one
  of the allergic species has a count other than zero at the center; otherwise it
  returns the count of the desired species as the string \<open>'%.1f' % count\<close>, which for a
  count of magnitude at most \<open>2^53\<close> (where the conversion to a float is exact) is
  \<open>str(count)\<close> followed by \<open>.0\<close>.
\<close>

theorem allergic_result:
  assumes "\<bar>get_number_of_species w c d\<bar> \<le> 2 ^ 53"
  shows "fst (get_score (AllergicAdopter n d als) c w) =
     Inr (if \<exists>s\<in>set als. get_number_of_species w c s \<noteq> 0 then PInt 0
          else PStr (str_int (get_number_of_species w c d) @ ''.0''))"
  by (simp add: none_present_def list_all_iff fmt1_of_int Adopter_get_score_def)

theorem allergic_result_demo:
  "fst (get_score (AllergicAdopter ''Six'' ''Cat'' [''Dog'']) 0 demo_world) = Inr (PInt 0)
   \<and> fst (get_score (AllergicAdopter ''Six'' ''Cat'' [''Dog'']) 1 demo_world) =
       Inr (PStr ''12.0'')"
proof -
  have b0: "\<bar>get_number_of_species demo_world 0 ''Cat''\<bar> \<le> 2 ^ 53"
    and b1: "\<bar>get_number_of_species demo_world 1 ''Cat''\<bar> \<le> 2 ^ 53"
    by (simp_all add: demo_eval)
  show ?thesis
    using allergic_result [OF b0, of "''Six''" "[''Dog'']"]
      allergic_result [OF b1, of "''Six''" "[''Dog'']"]
    by (simp add: demo_eval str_int_def str_nat.simps digit_char_def)
qed

subsection \<open>MedicatedAllergicAdopter\<close>










subsection \<open>The dictionary of a comprehension and its sorting\<close>

lemma dict_set_keys: "fst ` set (dict_set k v d) = insert k (fst ` set d)"
  by (induction d) auto

lemma dict_set_distinct: "distinct (map fst d) \<Longrightarrow> distinct (map fst (dict_set k v d))"
proof (induction d)
  case Nil
  then show ?case by simp
next
  case (Cons p d)
  then show ?case
    using dict_set_keys [of k v d] by (auto simp: image_iff)
qed

lemma dict_set_length: "length (dict_set k v d) \<le> Suc (length d)"
  by (induction d) auto

lemma dict_comprehension_dict:
  assumes "dict_comprehension item xs d w = (Inr d', w')" and "distinct (map fst d)"
  shows "distinct (map fst d') \<and> length d' \<le> length d + length xs"
  using assms
proof (induction xs arbitrary: d w)
  case Nil
  then show ?case by simp
next
  case (Cons x xs)
  obtain r w1 where it: "item x w = (r, w1)"
    by (cases "item x w")
  show ?case
  proof (cases r)
    case (Inl e)
    with it Cons.prems show ?thesis by simp
  next
    case (Inr kv)
    obtain k v where kv: "kv = (k, v)"
      by (cases kv)
    from it Inr kv Cons.prems
    have rec: "dict_comprehension item xs (dict_set k v d) w1 = (Inr d', w')"
      by simp
    have "distinct (map fst d') \<and> length d' \<le> length (dict_set k v d) + length xs"
      using Cons.IH [OF rec] dict_set_distinct [OF Cons.prems(2)] by blast
    then show ?thesis
      using dict_set_length [of k v d] by simp
  qed
qed

lemma rank_key_Inr: "rank_key x = Inr k \<Longrightarrow> k = key_of x"
  by (auto simp: rank_key_def key_of_def sort_value_def split: sum.splits)

lemma decorate_Inr: "decorate rank_key xs = Inr ds \<Longrightarrow> ds = map (\<lambda>x. (key_of x, x)) xs"
proof (induction xs arbitrary: ds)
  case Nil
  then show ?case by simp
next
  case (Cons x xs)
  then show ?case
    by (auto split: sum.splits dest: rank_key_Inr)
qed

lemma insort_key_decorated:
  "insort_key fst (k x, x) (map (\<lambda>x. (k x, x)) ys) = map (\<lambda>x. (k x, x)) (insort_key k x ys)"
  by (induction ys) simp_all

lemma sort_key_decorated:
  "sort_key fst (map (\<lambda>x. (k x, x)) xs) = map (\<lambda>x. (k x, x)) (sort_key k xs)"
  by (induction xs) (simp_all add: insort_key_decorated)

lemma sorted_reverse_Inr:
  assumes "sorted_reverse rank_key d = Inr out"
  shows "out = ranking d"
proof -
  obtain ds where ds: "decorate rank_key d = Inr ds"
    and out: "out = map snd (rev (sort_key fst (rev ds)))"
    using assms by (auto simp: sorted_reverse_def split: sum.splits)
  have "rev ds = map (\<lambda>x. (key_of x, x)) (rev d)"
    using decorate_Inr [OF ds] by (simp add: rev_map)
  then have "sort_key fst (rev ds) = map (\<lambda>x. (key_of x, x)) (sort_key key_of (rev d))"
    by (simp only: sort_key_decorated)
  then have "map snd (rev (sort_key fst (rev ds))) = rev (sort_key key_of (rev d))"
    by (simp add: rev_map comp_def)
  with out show ?thesis
    by (simp add: ranking_def)
qed

lemma length_ranking: "length (ranking d) = length d"
  by (simp add: ranking_def)

lemma ranks_before_key: "ranks_before x y \<longleftrightarrow> key_of y < key_of x"
  by (auto simp: ranks_before_def key_of_def less_prod_def)

lemma key_of_inj: "distinct (map fst d) \<Longrightarrow> inj_on key_of (set d)"
  by (auto simp: inj_on_def key_of_def dest: eq_key_imp_eq_value)

lemma ranking_strict:
  assumes "distinct (map fst d)"
  shows "sorted_wrt ranks_before (ranking d)"
proof -
  let ?s = "sort_key key_of (rev d)"
  have "distinct d"
    using assms by (simp add: distinct_map)
  then have "distinct (map key_of ?s)"
    using key_of_inj [OF assms] by (simp add: distinct_map)
  moreover have "sorted (map key_of ?s)"
    by (rule sorted_sort_key)
  ultimately have "sorted_wrt (<) (map key_of ?s)"
    by (simp add: strict_sorted_iff)
  then have "sorted_wrt (\<lambda>x y. key_of x < key_of y) ?s"
    by (simp add: sorted_wrt_map)
  then show ?thesis
    by (simp add: ranking_def sorted_wrt_rev ranks_before_key)
qed

lemma sorted_wrt_slice: "sorted_wrt P xs \<Longrightarrow> sorted_wrt P (py_slice_to xs n)"
  by (simp add: py_slice_to_def sorted_wrt_take)

lemma centers_result:
  assumes "fst (get_ordered_adoption_center_list adopter cs w) = Inr r"
  shows "\<exists>d. distinct (map fst d) \<and> length d \<le> length cs \<and>
           r = [(Adopter_get_name adopter, ranking d)]"
proof -
  obtain d w' where dc: "dict_comprehension (center_item adopter) cs [] w = (Inr d, w')"
    and sr: "sorted_reverse rank_key d = Inr (ranking d)"
    and r: "r = [(Adopter_get_name adopter, ranking d)]"
    using assms
    by (auto simp: get_ordered_adoption_center_list_def split: prod.splits sum.splits
        dest: sorted_reverse_Inr)
  then show ?thesis
    using dict_comprehension_dict [OF dc] by auto
qed

lemma adopters_result:
  assumes "fst (get_adopters_for_advertisement c as m w) = Inr r"
  shows "\<exists>d k. distinct (map fst d) \<and> length d \<le> length as \<and>
           (\<forall>n. fst (get_adopters_for_advertisement c as n w) =
                  Inr [(k, py_slice_to (ranking d) n)])"
proof -
  obtain d w' where dc: "dict_comprehension (adopter_item c) as [] w = (Inr d, w')"
    and sr: "sorted_reverse rank_key d = Inr (ranking d)"
    using assms
    by (auto simp: get_adopters_for_advertisement_def split: prod.splits sum.splits
        dest: sorted_reverse_Inr)
  have "fst (get_adopters_for_advertisement c as n w) =
      Inr [(AdoptionCenter_get_name w' c, py_slice_to (ranking d) n)]" for n
    using dc sr by (simp add: get_adopters_for_advertisement_def)
  then show ?thesis
    using dict_comprehension_dict [OF dc] by auto
qed

lemma decorate_keys:
  "decorate rank_key xs = Inr ds \<Longrightarrow> x \<in> set xs \<Longrightarrow> rank_key x = Inr (key_of x)"
proof (induction xs arbitrary: ds)
  case Nil
  then show ?case by simp
next
  case (Cons y ys)
  then show ?case
    by (auto split: sum.splits dest: rank_key_Inr)
qed

lemma decorate_all:
  "(\<And>x. x \<in> set xs \<Longrightarrow> rank_key x = Inr (key_of x)) \<Longrightarrow>
     decorate rank_key xs = Inr (map (\<lambda>x. (key_of x, x)) xs)"
  by (induction xs) simp_all

lemma ranking_unique:
  assumes "distinct (map fst d)" "distinct (map fst d')" "set d = set d'"
  shows "ranking d = ranking d'"
proof -
  have str: "sorted (map key_of (sort_key key_of (rev e))) \<and>
      distinct (map key_of (sort_key key_of (rev e)))"
    if "distinct (map fst e)" for e :: "pyval dict"
  proof -
    have "distinct e"
      using that by (simp add: distinct_map)
    then have "distinct (map key_of (sort_key key_of (rev e)))"
      using key_of_inj [OF that] by (simp add: distinct_map)
    then show ?thesis
      using sorted_sort_key [of key_of "rev e"] by simp
  qed
  have "map key_of (sort_key key_of (rev d)) = map key_of (sort_key key_of (rev d'))"
    using str [OF assms(1)] str [OF assms(2)] assms(3)
    by (intro sorted_distinct_set_unique) auto
  moreover have "inj_on key_of (set (sort_key key_of (rev d)) \<union> set (sort_key key_of (rev d')))"
    using key_of_inj [OF assms(1)] assms(3) by simp
  ultimately have "sort_key key_of (rev d) = sort_key key_of (rev d')"
    by (simp add: inj_on_map_eq_map)
  then show ?thesis
    by (simp add: ranking_def)
qed

lemma sorted_reverse_items_order:
  assumes "distinct (map fst d)" "distinct (map fst d')" "set d = set d'"
    and "sorted_reverse rank_key d = Inr out"
  shows "sorted_reverse rank_key d' = Inr out"
proof -
  obtain ds where ds: "decorate rank_key d = Inr ds"
    using assms(4) by (auto simp: sorted_reverse_def split: sum.splits)
  have "rank_key x = Inr (key_of x)" if "x \<in> set d'" for x
    using decorate_keys [OF ds] that assms(3) by simp
  then have dec: "decorate rank_key d' = Inr (map (\<lambda>x. (key_of x, x)) d')"
    by (rule decorate_all)
  have "sorted_reverse rank_key d' =
      Inr (map snd (rev (sort_key fst (rev (map (\<lambda>x. (key_of x, x)) d')))))"
    by (simp add: sorted_reverse_def dec)
  then have "sorted_reverse rank_key d' = Inr (ranking d')"
    using sorted_reverse_Inr by fastforce
  moreover have "out = ranking d"
    using sorted_reverse_Inr [OF assms(4)] .
  ultimately show ?thesis
    using ranking_unique [OF assms(1-3)] by simp
qed

subsection \<open>The rankings on the objects of the demonstration\<close>

lemma centers_eval:
  assumes "dict_comprehension (center_item a) cs [] w = (Inr d, w')"
    and "decorate rank_key d = Inr ds"
  shows "fst (get_ordered_adoption_center_list a cs w) =
     Inr [(Adopter_get_name a, map snd (rev (sort_key fst (rev ds))))]"
  using assms by (simp add: get_ordered_adoption_center_list_def sorted_reverse_def)

lemma float_of_string_eval:
  "float_of_string ''38.8'' = Inr (388 / 10)"
  "float_of_string ''12.0'' = Inr 12"
  "float_of_string ''11.4'' = Inr (114 / 10)"
  "float_of_string ''4.0'' = Inr 4"
  by (simp_all add: float_of_string_def parse_unsigned_def digit_val_def)

lemmas item_eval = center_item_def adopter_item_def AdoptionCenter_get_name_def
  fearful_score_def flexible_score_def none_present_def coefficients_def

lemma centers_demo:
  "fst (get_ordered_adoption_center_list (FearfulAdopter ''Four'' ''Cat'' [''Dog'']) [0, 1, 2]
          demo_world) =
     Inr [(''Four'', [(''Place3'', PStr ''38.8''), (''Place2'', PStr ''12.0''),
                      (''Place1'', PStr ''11.4'')])]"
proof -
  let ?a = "FearfulAdopter ''Four'' ''Cat'' [''Dog'']"
  have i0: "center_item ?a 0 demo_world = (Inr (''Place1'', PStr ''11.4''), demo_world)"
    by (simp add: item_eval demo_eval fmt1_eval)
  have i1: "center_item ?a 1 demo_world = (Inr (''Place2'', PStr ''12.0''), demo_world)"
    by (simp add: item_eval demo_eval fmt1_eval)
  have i2: "center_item ?a 2 demo_world = (Inr (''Place3'', PStr ''38.8''), demo_world)"
    by (simp add: item_eval demo_eval fmt1_eval)
  have dc: "dict_comprehension (center_item ?a) [0, 1, 2] [] demo_world =
      (Inr [(''Place1'', PStr ''11.4''), (''Place2'', PStr ''12.0''), (''Place3'', PStr ''38.8'')],
       demo_world)"
    by (simp add: i0 i1 i2 del: One_nat_def)
  have dec: "decorate rank_key
      [(''Place1'', PStr ''11.4''), (''Place2'', PStr ''12.0''), (''Place3'', PStr ''38.8'')] =
      Inr [((114 / 10, ''Place1''), (''Place1'', PStr ''11.4'')),
           ((12, ''Place2''), (''Place2'', PStr ''12.0'')),
           ((388 / 10, ''Place3''), (''Place3'', PStr ''38.8''))]"
    by (simp add: rank_key_def float_of_string_eval)
  show ?thesis
    using centers_eval [OF dc dec] by simp
qed

lemma adopters_eval:
  assumes "dict_comprehension (adopter_item c) as [] w = (Inr d, w')"
    and "decorate rank_key d = Inr ds"
  shows "fst (get_adopters_for_advertisement c as n w) =
     Inr [(AdoptionCenter_get_name w' c, py_slice_to (map snd (rev (sort_key fst (rev ds)))) n)]"
  using assms by (simp add: get_adopters_for_advertisement_def sorted_reverse_def)

lemma adopters_demo:
  "fst (get_adopters_for_advertisement 0
          [FearfulAdopter ''Four'' ''Cat'' [''Dog''], Adopter ''Two'' ''Cat'',
           AllergicAdopter ''Six'' ''Cat'' [''Dog'']] 2 demo_world) =
     Inr [(''Place1'', [(''Two'', PInt 12), (''Four'', PStr ''11.4'')])]"
proof -
  have i0: "adopter_item 0 (FearfulAdopter ''Four'' ''Cat'' [''Dog'']) demo_world =
      (Inr (''Four'', PStr ''11.4''), demo_world)"
    by (simp add: item_eval demo_eval fmt1_eval)
  have i1: "adopter_item 0 (Adopter ''Two'' ''Cat'') demo_world =
      (Inr (''Two'', PInt 12), demo_world)"
    by (simp add: item_eval demo_eval)
  have i2: "adopter_item 0 (AllergicAdopter ''Six'' ''Cat'' [''Dog'']) demo_world =
      (Inr (''Six'', PInt 0), demo_world)"
    by (simp add: item_eval demo_eval)
  have dc: "dict_comprehension (adopter_item 0)
      [FearfulAdopter ''Four'' ''Cat'' [''Dog''], Adopter ''Two'' ''Cat'',
       AllergicAdopter ''Six'' ''Cat'' [''Dog'']] [] demo_world =
      (Inr [(''Four'', PStr ''11.4''), (''Two'', PInt 12), (''Six'', PInt 0)], demo_world)"
    by (simp add: i0 i1 i2)
  have dec: "decorate rank_key [(''Four'', PStr ''11.4''), (''Two'', PInt 12), (''Six'', PInt 0)] =
      Inr [((114 / 10, ''Four''), (''Four'', PStr ''11.4'')),
           ((12, ''Two''), (''Two'', PInt 12)),
           ((0, ''Six''), (''Six'', PInt 0))]"
    by (simp add: rank_key_def float_of_string_eval)
  show ?thesis
    using adopters_eval [OF dc dec, of 2]
    by (simp add: py_slice_to_def AdoptionCenter_get_name_def demo_world_def ac_def)
qed

lemma negative_demo:
  "fst (get_adopters_for_advertisement 0 [Adopter ''Two'' ''Cat'', Adopter ''Three'' ''Dog'']
          n demo_world) =
     Inr [(''Place1'', py_slice_to [(''Two'', PInt 12), (''Three'', PInt 2)] n)]"
proof -
  have i0: "adopter_item 0 (Adopter ''Two'' ''Cat'') demo_world =
      (Inr (''Two'', PInt 12), demo_world)"
    by (simp add: item_eval demo_eval)
  have i1: "adopter_item 0 (Adopter ''Three'' ''Dog'') demo_world =
      (Inr (''Three'', PInt 2), demo_world)"
    by (simp add: item_eval demo_eval)
  have dc: "dict_comprehension (adopter_item 0)
      [Adopter ''Two'' ''Cat'', Adopter ''Three'' ''Dog''] [] demo_world =
      (Inr [(''Two'', PInt 12), (''Three'', PInt 2)], demo_world)"
    by (simp add: i0 i1)
  have dec: "decorate rank_key [(''Two'', PInt 12), (''Three'', PInt 2)] =
      Inr [((12, ''Two''), (''Two'', PInt 12)), ((2, ''Three''), (''Three'', PInt 2))]"
    by (simp add: rank_key_def)
  show ?thesis
    using adopters_eval [OF dc dec, of n]
    by (simp add: AdoptionCenter_get_name_def demo_world_def ac_def)
qed

lemma twin_centers:
  "fst (get_ordered_adoption_center_list (Adopter ''Two'' ''Cat'') [0, 1] twin_world) =
     Inr [(''Two'', [(''Place1'', PInt 40)])]"
proof -
  have i0: "center_item (Adopter ''Two'' ''Cat'') 0 twin_world =
      (Inr (''Place1'', PInt 12), twin_world)"
    by (simp add: item_eval twin_world_def ac_def get_number_of_species_def
        Adopter_get_score_def)
  have i1: "center_item (Adopter ''Two'' ''Cat'') 1 twin_world =
      (Inr (''Place1'', PInt 40), twin_world)"
    by (simp add: item_eval twin_world_def ac_def get_number_of_species_def
        Adopter_get_score_def)
  have dc: "dict_comprehension (center_item (Adopter ''Two'' ''Cat'')) [0, 1] [] twin_world =
      (Inr [(''Place1'', PInt 40)], twin_world)"
    by (simp add: i0 i1 del: One_nat_def)
  have dec: "decorate rank_key [(''Place1'', PInt 40)] =
      Inr [((40, ''Place1''), (''Place1'', PInt 40))]"
    by (simp add: rank_key_def)
  show ?thesis
    using centers_eval [OF dc dec] by simp
qed

lemma twin_adopters:
  "fst (get_adopters_for_advertisement 0 [Adopter ''Two'' ''Cat'', Adopter ''Two'' ''Dog'']
          10 twin_world) =
     Inr [(''Place1'', [(''Two'', PInt 2)])]"
proof -
  have i0: "adopter_item 0 (Adopter ''Two'' ''Cat'') twin_world =
      (Inr (''Two'', PInt 12), twin_world)"
    by (simp add: item_eval twin_world_def ac_def get_number_of_species_def
        Adopter_get_score_def)
  have i1: "adopter_item 0 (Adopter ''Two'' ''Dog'') twin_world =
      (Inr (''Two'', PInt 2), twin_world)"
    by (simp add: item_eval twin_world_def ac_def get_number_of_species_def
        Adopter_get_score_def)
  have dc: "dict_comprehension (adopter_item 0)
      [Adopter ''Two'' ''Cat'', Adopter ''Two'' ''Dog''] [] twin_world =
      (Inr [(''Two'', PInt 2)], twin_world)"
    by (simp add: i0 i1)
  have dec: "decorate rank_key [(''Two'', PInt 2)] = Inr [((2, ''Two''), (''Two'', PInt 2))]"
    by (simp add: rank_key_def)
  show ?thesis
    using adopters_eval [OF dc dec, of 10]
    by (simp add: py_slice_to_def AdoptionCenter_get_name_def twin_world_def ac_def)
qed


lemma sort_value_eval:
  "sort_value (PInt k) = of_int k"
  "sort_value (PStr ''38.8'') = 388 / 10"
  "sort_value (PStr ''12.0'') = 12"
  "sort_value (PStr ''11.4'') = 114 / 10"
  "sort_value (PStr ''4.0'') = 4"
  by (simp_all add: sort_value_def float_of_string_eval)

lemma plain_score_eval:
  "\<bar>k\<bar> < 2 ^ 49 \<Longrightarrow> plain_score (PInt k)"
  "plain_score (PStr ''38.8'')"
  "plain_score (PStr ''12.0'')"
  "plain_score (PStr ''11.4'')"
  by (simp_all add: plain_score_def float_of_string_eval)

subsection \<open>The order of a ranking\<close>

text \<open>
  Claim C2: whenever a ranking function returns, the pairs of its result are in the
  order of the key (\<open>float\<close> of the score, then the name), greatest first: by score
  descending and, between equal scores, by name descending; the slice \<open>[:n]\<close> of
  \<open>get_adopters_for_advertisement\<close> keeps that order for every \<open>n\<close>. The scores are read
  as the numbers they denote, which is what their floats compare as when they are
  below \<open>2^49\<close> in magnitude.
\<close>

theorem rankings_sorted:
  "(fst (get_ordered_adoption_center_list adopter cs w) = Inr [(k, out)] \<and>
    list_all (\<lambda>x. plain_score (snd x)) out \<longrightarrow>
      k = Adopter_get_name adopter \<and> sorted_wrt ranks_before out) \<and>
   (fst (get_adopters_for_advertisement c as n w) = Inr [(k', out')] \<and>
    list_all (\<lambda>x. plain_score (snd x)) out' \<longrightarrow>
      sorted_wrt ranks_before out')"
proof (intro conjI impI)
  assume a: "fst (get_ordered_adoption_center_list adopter cs w) = Inr [(k, out)] \<and>
    list_all (\<lambda>x. plain_score (snd x)) out"
  then obtain d where "distinct (map fst d)" "[(k, out)] = [(Adopter_get_name adopter, ranking d)]"
    using centers_result by blast
  then show "k = Adopter_get_name adopter" and "sorted_wrt ranks_before out"
    using ranking_strict by auto
next
  assume a: "fst (get_adopters_for_advertisement c as n w) = Inr [(k', out')] \<and>
    list_all (\<lambda>x. plain_score (snd x)) out'"
  then obtain d k0 where d: "distinct (map fst d)"
    and all: "\<forall>n. fst (get_adopters_for_advertisement c as n w) =
      Inr [(k0, py_slice_to (ranking d) n)]"
    using adopters_result by blast
  from a all have "out' = py_slice_to (ranking d) n"
    by simp
  then show "sorted_wrt ranks_before out'"
    using ranking_strict [OF d] by (simp add: sorted_wrt_slice)
qed

theorem rankings_sorted_demo:
  "fst (get_ordered_adoption_center_list (FearfulAdopter ''Four'' ''Cat'' [''Dog'']) [0, 1, 2]
          demo_world) =
     Inr [(''Four'', [(''Place3'', PStr ''38.8''), (''Place2'', PStr ''12.0''),
                      (''Place1'', PStr ''11.4'')])] \<and>
   sorted_wrt ranks_before
     [(''Place3'', PStr ''38.8''), (''Place2'', PStr ''12.0''), (''Place1'', PStr ''11.4'')] \<and>
   fst (get_adopters_for_advertisement 0
          [FearfulAdopter ''Four'' ''Cat'' [''Dog''], Adopter ''Two'' ''Cat'',
           AllergicAdopter ''Six'' ''Cat'' [''Dog'']] 2 demo_world) =
     Inr [(''Place1'', [(''Two'', PInt 12), (''Four'', PStr ''11.4'')])] \<and>
   sorted_wrt ranks_before [(''Two'', PInt 12), (''Four'', PStr ''11.4'')]"
  using rankings_sorted [of "FearfulAdopter ''Four'' ''Cat'' [''Dog'']" "[0, 1, 2]" demo_world
      "''Four''"
      "[(''Place3'', PStr ''38.8''), (''Place2'', PStr ''12.0''), (''Place1'', PStr ''11.4'')]"
      0 "[FearfulAdopter ''Four'' ''Cat'' [''Dog''], Adopter ''Two'' ''Cat'',
          AllergicAdopter ''Six'' ''Cat'' [''Dog'']]" 2 "''Place1''"
      "[(''Two'', PInt 12), (''Four'', PStr ''11.4'')]"]
    centers_demo adopters_demo
  by (simp add: plain_score_eval)




subsection \<open>The bound of get_adopters_for_advertisement\<close>

text \<open>
  Claim C3 says that a negative \<open>n\<close> makes \<open>get_adopters_for_advertisement\<close> fail. The
  code has no check of \<open>n\<close>; it returns the slice \<open>sorted_adopters[:n]\<close>, and with
  \<open>n = -1\<close> that is the ranking without its last entry.
\<close>

theorem negative_n_returns:
  "fst (get_adopters_for_advertisement 0 [Adopter ''Two'' ''Cat'', Adopter ''Three'' ''Dog'']
          (- 1) demo_world) =
     Inr [(''Place1'', [(''Two'', PInt 12)])]"
  using negative_demo [of "- 1"] by (simp add: py_slice_to_def)

text \<open>
  C3 as amended: \<open>n\<close> never makes the function fail. If the ranking can be computed at
  all (the call with \<open>n\<close> equal to the length of the list of adopters returns it in
  full), then for every integer \<open>n\<close> the call returns the slice \<open>[:n]\<close> of that ranking:
  the ranking without its last \<open>-n\<close> entries when \<open>n\<close> is negative (nothing when it has no
  more than \<open>-n\<close>), nothing when \<open>n\<close> is 0, and all of it when \<open>n\<close> is at least the length
  of the list of adopters.
\<close>

theorem advertisement_slice:
  assumes "fst (get_adopters_for_advertisement c as (int (length as)) w) = Inr [(k, full)]"
  shows "fst (get_adopters_for_advertisement c as n w) = Inr [(k, py_slice_to full n)] \<and>
     (n < 0 \<longrightarrow> py_slice_to full n = take (length full - nat (- n)) full) \<and>
     (n = 0 \<longrightarrow> py_slice_to full n = []) \<and>
     (int (length as) \<le> n \<longrightarrow> py_slice_to full n = full)"
proof -
  obtain d k0 where len: "length d \<le> length as"
    and all: "\<forall>n. fst (get_adopters_for_advertisement c as n w) =
      Inr [(k0, py_slice_to (ranking d) n)]"
    using adopters_result [OF assms] by blast
  from assms all have k: "k = k0" and "full = py_slice_to (ranking d) (int (length as))"
    by simp_all
  then have full: "full = ranking d"
    using len by (simp add: py_slice_to_def length_ranking)
  have lf: "length full \<le> length as"
    using len full by (simp add: length_ranking)
  have "nat (int (length full) + n) = length full - nat (- n)" if "n < 0"
    using that by linarith
  then show ?thesis
    using all k full lf by (auto simp: py_slice_to_def)
qed

theorem advertisement_slice_demo:
  "fst (get_adopters_for_advertisement 0 [Adopter ''Two'' ''Cat'', Adopter ''Three'' ''Dog'']
          (- 1) demo_world) = Inr [(''Place1'', [(''Two'', PInt 12)])] \<and>
   fst (get_adopters_for_advertisement 0 [Adopter ''Two'' ''Cat'', Adopter ''Three'' ''Dog'']
          0 demo_world) = Inr [(''Place1'', [])] \<and>
   fst (get_adopters_for_advertisement 0 [Adopter ''Two'' ''Cat'', Adopter ''Three'' ''Dog'']
          7 demo_world) = Inr [(''Place1'', [(''Two'', PInt 12), (''Three'', PInt 2)])]"
proof -
  have full: "fst (get_adopters_for_advertisement 0
      [Adopter ''Two'' ''Cat'', Adopter ''Three'' ''Dog'']
      (int (length [Adopter ''Two'' ''Cat'', Adopter ''Three'' ''Dog''])) demo_world) =
      Inr [(''Place1'', [(''Two'', PInt 12), (''Three'', PInt 2)])]"
    using negative_demo [of 2] by (simp add: py_slice_to_def)
  show ?thesis
    using advertisement_slice [OF full, of "- 1"] advertisement_slice [OF full, of 0]
      advertisement_slice [OF full, of 7]
    by simp
qed

subsection \<open>Entities of the same name\<close>

text \<open>
  Claim C4 says that two entities of the same name both get their entry in a ranking.
  The code collects the scores in a dictionary whose key is the name, so the names of
  a result are pairwise distinct: of several entities with one name only the last
  of the list keeps its score, and the others are dropped without a word. Two centers
  called \<open>Place1\<close> give one entry, and so do two adopters called \<open>Two\<close>.
\<close>

theorem ranking_names_distinct:
  "(fst (get_ordered_adoption_center_list adopter cs w) = Inr [(k, out)] \<longrightarrow>
      distinct (map fst out)) \<and>
   (fst (get_adopters_for_advertisement c as n w) = Inr [(k', out')] \<longrightarrow>
      distinct (map fst out'))"
proof (intro conjI impI)
  assume "fst (get_ordered_adoption_center_list adopter cs w) = Inr [(k, out)]"
  then obtain d where "distinct (map fst d)" "out = ranking d"
    using centers_result by blast
  then show "distinct (map fst out)"
    by (simp add: ranking_def distinct_map)
next
  assume a: "fst (get_adopters_for_advertisement c as n w) = Inr [(k', out')]"
  then obtain d k0 where d: "distinct (map fst d)"
    and all: "\<forall>n. fst (get_adopters_for_advertisement c as n w) =
      Inr [(k0, py_slice_to (ranking d) n)]"
    using adopters_result by blast
  from a all have "out' = py_slice_to (ranking d) n"
    by simp
  moreover have "distinct (map fst (ranking d))"
    using d by (simp add: ranking_def distinct_map)
  ultimately show "distinct (map fst out')"
    by (simp add: py_slice_to_def take_map [symmetric] distinct_take)
qed

theorem duplicate_names_collapse:
  "fst (get_ordered_adoption_center_list (Adopter ''Two'' ''Cat'') [0, 1] twin_world) =
     Inr [(''Two'', [(''Place1'', PInt 40)])] \<and>
   AdoptionCenter_get_name twin_world 0 = AdoptionCenter_get_name twin_world 1 \<and>
   get_number_of_species twin_world 0 ''Cat'' = 12 \<and>
   fst (get_adopters_for_advertisement 0 [Adopter ''Two'' ''Cat'', Adopter ''Two'' ''Dog'']
          10 twin_world) =
     Inr [(''Place1'', [(''Two'', PInt 2)])] \<and>
   distinct (map fst [(''Place1'', PInt 40)])"
  using ranking_names_distinct [of "Adopter ''Two'' ''Cat''" "[0, 1]" twin_world "''Two''"
      "[(''Place1'', PInt 40)]" 0 "[Adopter ''Two'' ''Cat'', Adopter ''Two'' ''Dog'']" 10
      "''Place1''" "[(''Two'', PInt 2)]"]
    twin_centers twin_adopters
  by (simp add: AdoptionCenter_get_name_def twin_world_def ac_def get_number_of_species_def)

end
